theory Spec2Isabelle
  imports Main
begin

section \<open>Webhook delivery and retry core of backend/server.js\<close>

text \<open>
  The theory embeds the webhook system of \<^verbatim>\<open>backend/server.js\<close>: the function
  \<^verbatim>\<open>sendWebhook\<close>, the retry job installed with \<^verbatim>\<open>setInterval\<close>, and the handler
  \<^verbatim>\<open>POST /invoices/:id/:phone/approve\<close>. The Postgres table, the HTTP endpoint and the
  directory of PDF files are outside the program; the table is explicit state, and the
  outcome of every call that leaves the process (HTTP post, SQL statement, file access)
  is a parameter, so that each \<^verbatim>\<open>throw\<close> of the source is a branch of the model. A
  promise that never settles is a branch as well: neither \<^verbatim>\<open>axios.post\<close> nor
  \<^verbatim>\<open>pool.query\<close> is given a timeout, and a function that waits for such a promise
  neither returns nor throws; its result is then \<open>None\<close>.
\<close>

subsection \<open>Rows of client_smd.backend\<close>

text \<open>
  Only the columns that the webhook system reads or writes. Nullable columns are
  options. The type of \<^verbatim>\<open>webhook_attempts\<close> is not declared in the repository (the table
  is created elsewhere); it is taken as an unbounded integer. On a bounded column the
  increment past the bound does not wrap: Postgres rejects the statement, which is
  the case of an \<^verbatim>\<open>UPDATE\<close> that throws below. \<^verbatim>\<open>id\<close> and \<^verbatim>\<open>total\<close> are suffixed because HOL
  already has constants of these names.
\<close>

record invoice =
  id_col :: string
  phonenumber :: string
  dealer :: "string option"
  total_col :: "string option"
  status :: "string option"
  pdf_url :: "string option"
  webhook_status :: "string option"
  webhook_attempts :: "int option"

text \<open>JavaScript truthiness of a value that is a string, \<^verbatim>\<open>null\<close> or \<^verbatim>\<open>undefined\<close>.\<close>

definition truthy :: "string option \<Rightarrow> bool" where
  "truthy v = (case v of None \<Rightarrow> False | Some s \<Rightarrow> s \<noteq> [])"

subsection \<open>The world outside the process\<close>

datatype fs_entry = Absent | Unreadable | Content string

text \<open>
  What becomes of the promise of \<^verbatim>\<open>axios.post\<close>: it resolves on a 2xx answer, it
  rejects on any other answer, on a network failure and on a body that cannot be
  serialised, and it stays pending when the destination never answers (the call of
  lines 129 to 138 sets no timeout).
\<close>

datatype http_outcome =
    Http_2xx
  | Http_non_2xx
  | Network_failure
  | Serialization_failure
  | Http_pending

text \<open>
  What becomes of the promise of \<^verbatim>\<open>pool.query\<close>: the statement is carried out and the
  promise resolves, the promise rejects, or it stays pending. In the last two cases
  the statement is taken to have had no effect on the table.
\<close>

datatype db_outcome = Db_done | Db_throws | Db_hangs

datatype js_error = Http_error http_outcome | Db_error | Fs_error | Type_error

datatype db_query =
    Q_select_retry
  | Q_mark_sent string
  | Q_mark_failed string
  | Q_approve string string

datatype log_line =
    Warn_pdf_unreadable string
  | Log_sending string
  | Log_sent string
  | Err_webhook_failed string js_error
  | Log_retrying nat
  | Err_retry_job js_error
  | Err_immediate_trigger js_error
  | Log_no_webhook_url
  | Err_approval js_error

text \<open>The JSON body handed to \<^verbatim>\<open>axios.post\<close>.\<close>

record payload =
  p_event :: string
  p_invoice_id :: string
  p_phone :: string
  p_pdf_url :: "string option"
  p_pdf_base64 :: "string option"
  p_total :: "string option"
  p_dealer :: "string option"
  p_timestamp :: string

text \<open>
  What one call of \<^verbatim>\<open>sendWebhook\<close> meets: the files under \<^verbatim>\<open>public/invoices\<close> by file
  name (\<open>Absent\<close>: \<^verbatim>\<open>existsSync\<close> is false; \<open>Unreadable\<close>: \<^verbatim>\<open>readFileSync\<close> throws;
  \<open>Content b\<close>: the file read as base64), the clock, the outcome of the HTTP post, and
  the outcome of each of the two \<^verbatim>\<open>UPDATE\<close> statements.
\<close>

record call_env =
  fs :: "string \<Rightarrow> fs_entry"
  now_iso :: string
  http :: http_outcome
  sent_update :: db_outcome
  failed_update :: db_outcome

text \<open>
  The state: the table in the order the database scans it, the requests handed to
  \<^verbatim>\<open>axios.post\<close>, the SQL statements issued through \<^verbatim>\<open>pool.query\<close>, and the console.
\<close>

record world =
  table :: "invoice list"
  outbox :: "payload list"
  dblog :: "db_query list"
  console :: "log_line list"

subsection \<open>The two UPDATE statements of sendWebhook\<close>

text \<open>\<^verbatim>\<open>UPDATE client_smd.backend SET webhook_status = 'SENT' WHERE id = $1\<close>\<close>

definition mark_sent :: "string \<Rightarrow> invoice list \<Rightarrow> invoice list" where
  "mark_sent i tbl =
     map (\<lambda>r. if id_col r = i then r\<lparr>webhook_status := Some ''SENT''\<rparr> else r) tbl"

text \<open>\<^verbatim>\<open>COALESCE(webhook_attempts, 0)\<close>\<close>

definition coalesce :: "int option \<Rightarrow> int \<Rightarrow> int" where
  "coalesce v d = (case v of None \<Rightarrow> d | Some n \<Rightarrow> n)"

text \<open>
  \<^verbatim>\<open>UPDATE client_smd.backend SET webhook_status = 'FAILED',
  webhook_attempts = COALESCE(webhook_attempts, 0) + 1 WHERE id = $1\<close>
\<close>

definition mark_failed :: "string \<Rightarrow> invoice list \<Rightarrow> invoice list" where
  "mark_failed i tbl =
     map (\<lambda>r. if id_col r = i
              then r\<lparr>webhook_status := Some ''FAILED'',
                     webhook_attempts := Some (coalesce (webhook_attempts r) 0 + 1)\<rparr>
              else r) tbl"

subsection \<open>sendWebhook\<close>

text \<open>\<^verbatim>\<open>invoice.pdf_url.split('/').pop()\<close>: what follows the last slash.\<close>

definition last_segment :: "string \<Rightarrow> string" where
  "last_segment s = rev (takeWhile (\<lambda>c. c \<noteq> CHR ''/'') (rev s))"

text \<open>
  Lines 115 to 126: the PDF as base64, or \<^verbatim>\<open>null\<close>; an exception of the file access is
  caught there and leaves a warning on the console.
\<close>

definition read_pdf :: "(string \<Rightarrow> fs_entry) \<Rightarrow> invoice \<Rightarrow> string option \<times> log_line list" where
  "read_pdf files ivc =
     (case pdf_url ivc of
        None \<Rightarrow> (None, [])
      | Some u \<Rightarrow>
          if u = [] then (None, [])
          else (case files (last_segment u) of
                  Absent \<Rightarrow> (None, [])
                | Unreadable \<Rightarrow> (None, [Warn_pdf_unreadable (id_col ivc)])
                | Content b \<Rightarrow> (Some b, [])))"

definition build_payload :: "call_env \<Rightarrow> invoice \<Rightarrow> string option \<Rightarrow> payload" where
  "build_payload env ivc pdf =
     \<lparr>p_event = ''invoice_approved'',
      p_invoice_id = id_col ivc,
      p_phone = phonenumber ivc,
      p_pdf_url = pdf_url ivc,
      p_pdf_base64 = pdf,
      p_total = total_col ivc,
      p_dealer = dealer ivc,
      p_timestamp = now_iso env\<rparr>"

text \<open>
  Lines 113 to 129, up to the point where \<^verbatim>\<open>axios.post\<close> has been called and the
  function waits for its promise. This part runs without interruption.
\<close>

definition sendWebhook_request :: "call_env \<Rightarrow> invoice \<Rightarrow> world \<Rightarrow> world" where
  "sendWebhook_request env ivc w =
     (case read_pdf (fs env) ivc of
        (pdf, warns) \<Rightarrow>
          w\<lparr>outbox := outbox w @ [build_payload env ivc pdf],
            console := console w @ warns @ [Log_sending (id_col ivc)]\<rparr>)"

text \<open>
  The result of a call: \<open>Some (Inr b)\<close> is \<^verbatim>\<open>return b\<close>, \<open>Some (Inl e)\<close> is an exception
  that leaves the function (the promise it returned rejects), and \<open>None\<close> is a call
  that never completes.
\<close>

type_synonym 'a completion = "(js_error + 'a) option"

text \<open>Lines 146 to 153: the \<^verbatim>\<open>catch\<close> branch. Its own \<^verbatim>\<open>UPDATE\<close> is not guarded.\<close>

definition sendWebhook_catch ::
  "call_env \<Rightarrow> invoice \<Rightarrow> js_error \<Rightarrow> world \<Rightarrow> bool completion \<times> world" where
  "sendWebhook_catch env ivc err w =
     (let w1 = w\<lparr>console := console w @ [Err_webhook_failed (id_col ivc) err],
                 dblog := dblog w @ [Q_mark_failed (id_col ivc)]\<rparr>
      in case failed_update env of
           Db_done \<Rightarrow> (Some (Inr False), w1\<lparr>table := mark_failed (id_col ivc) (table w1)\<rparr>)
         | Db_throws \<Rightarrow> (Some (Inl Db_error), w1)
         | Db_hangs \<Rightarrow> (None, w1))"

text \<open>
  Lines 129 to 153, from the \<^verbatim>\<open>await\<close> of \<^verbatim>\<open>axios.post\<close> on. While that promise is
  pending nothing more happens.
\<close>

definition sendWebhook_settle ::
  "call_env \<Rightarrow> invoice \<Rightarrow> world \<Rightarrow> bool completion \<times> world" where
  "sendWebhook_settle env ivc w =
     (if http env = Http_pending then (None, w)
      else if http env = Http_2xx then
        (let w1 = w\<lparr>dblog := dblog w @ [Q_mark_sent (id_col ivc)]\<rparr>
         in case sent_update env of
              Db_done \<Rightarrow>
                (Some (Inr True),
                 w1\<lparr>table := mark_sent (id_col ivc) (table w1),
                    console := console w1 @ [Log_sent (id_col ivc)]\<rparr>)
            | Db_throws \<Rightarrow> sendWebhook_catch env ivc Db_error w1
            | Db_hangs \<Rightarrow> (None, w1))
      else sendWebhook_catch env ivc (Http_error (http env)) w)"

text \<open>
  The part of a call that runs before its first \<^verbatim>\<open>await\<close>, with \<^verbatim>\<open>WEBHOOK_URL\<close> as the
  first argument. The argument \<^verbatim>\<open>invoice\<close> is a row or \<^verbatim>\<open>undefined\<close> (\<open>None\<close>): line 445
  passes \<^verbatim>\<open>result.rows[0]\<close>, which is \<^verbatim>\<open>undefined\<close> when the \<^verbatim>\<open>UPDATE\<close> matched no row.
  Then \<^verbatim>\<open>invoice.pdf_url\<close> of line 116 throws a \<^verbatim>\<open>TypeError\<close>, the \<^verbatim>\<open>catch\<close> of line
  146 takes it, and \<^verbatim>\<open>invoice.id\<close> of line 147 throws another one while the argument
  of \<^verbatim>\<open>console.error\<close> is built: nothing is logged, no request is made, no statement
  is issued, and the exception leaves the function.
\<close>

datatype started = Finished "js_error + bool" | Awaiting invoice

definition sendWebhook_start ::
  "string option \<Rightarrow> call_env \<Rightarrow> invoice option \<Rightarrow> world \<Rightarrow> started \<times> world" where
  "sendWebhook_start url env row w =
     (if \<not> truthy url then (Finished (Inr False), w)
      else (case row of
              None \<Rightarrow> (Finished (Inl Type_error), w)
            | Some ivc \<Rightarrow> (Awaiting ivc, sendWebhook_request env ivc w)))"

text \<open>The whole function (lines 107 to 154).\<close>

definition sendWebhook ::
  "string option \<Rightarrow> call_env \<Rightarrow> invoice option \<Rightarrow> world \<Rightarrow> bool completion \<times> world" where
  "sendWebhook url env row w =
     (case sendWebhook_start url env row w of
        (Finished r, w') \<Rightarrow> (Some r, w')
      | (Awaiting ivc, w') \<Rightarrow> sendWebhook_settle env ivc w')"

subsection \<open>The retry job\<close>

text \<open>
  The \<^verbatim>\<open>WHERE\<close> clause of the retry query, in SQL's three-valued logic: a comparison
  with \<^verbatim>\<open>NULL\<close> is unknown, and a row is returned only when the clause is true.
\<close>

datatype sql_bool = Sql_true | Sql_false | Sql_null

definition sql_of_bool :: "bool \<Rightarrow> sql_bool" where
  "sql_of_bool b = (if b then Sql_true else Sql_false)"

definition sql_eq :: "string option \<Rightarrow> string \<Rightarrow> sql_bool" where
  "sql_eq v s = (case v of None \<Rightarrow> Sql_null | Some t \<Rightarrow> sql_of_bool (t = s))"

definition sql_lt :: "int option \<Rightarrow> int \<Rightarrow> sql_bool" where
  "sql_lt v n = (case v of None \<Rightarrow> Sql_null | Some m \<Rightarrow> sql_of_bool (m < n))"

definition sql_is_null :: "int option \<Rightarrow> sql_bool" where
  "sql_is_null v = sql_of_bool (v = None)"

fun sql_and :: "sql_bool \<Rightarrow> sql_bool \<Rightarrow> sql_bool" where
  "sql_and Sql_false _ = Sql_false"
| "sql_and _ Sql_false = Sql_false"
| "sql_and Sql_true Sql_true = Sql_true"
| "sql_and _ _ = Sql_null"

fun sql_or :: "sql_bool \<Rightarrow> sql_bool \<Rightarrow> sql_bool" where
  "sql_or Sql_true _ = Sql_true"
| "sql_or _ Sql_true = Sql_true"
| "sql_or Sql_false Sql_false = Sql_false"
| "sql_or _ _ = Sql_null"

definition retry_where :: "invoice \<Rightarrow> sql_bool" where
  "retry_where r =
     sql_and (sql_and (sql_eq (status r) ''APPROVED'')
                      (sql_or (sql_eq (webhook_status r) ''FAILED'')
                              (sql_eq (webhook_status r) ''PENDING'')))
             (sql_or (sql_is_null (webhook_attempts r))
                     (sql_lt (webhook_attempts r) 10))"

text \<open>
  \<^verbatim>\<open>SELECT * ... WHERE ... LIMIT 10\<close>. The query has no \<^verbatim>\<open>ORDER BY\<close>: the rows come in
  the order of the scan, which is the order of the list.
\<close>

definition retry_select :: "invoice list \<Rightarrow> invoice list" where
  "retry_select tbl = take 10 (filter (\<lambda>r. retry_where r = Sql_true) tbl)"

text \<open>
  The \<^verbatim>\<open>for\<close> loop of lines 172 to 174; \<open>envs k\<close> is what the call for the \<open>k\<close>-th row
  meets. An exception of \<^verbatim>\<open>sendWebhook\<close> ends the loop, and a call that never completes
  keeps the loop at its \<^verbatim>\<open>await\<close>.
\<close>

fun deliver_all ::
  "string option \<Rightarrow> (nat \<Rightarrow> call_env) \<Rightarrow> nat \<Rightarrow> invoice list \<Rightarrow> world \<Rightarrow> unit completion \<times> world" where
  "deliver_all url envs k [] w = (Some (Inr ()), w)"
| "deliver_all url envs k (ivc # rest) w =
     (case sendWebhook url (envs k) (Some ivc) w of
        (None, w') \<Rightarrow> (None, w')
      | (Some (Inl e), w') \<Rightarrow> (Some (Inl e), w')
      | (Some (Inr b), w') \<Rightarrow> deliver_all url envs (Suc k) rest w')"

record tick_env =
  select_query :: db_outcome
  calls :: "nat \<Rightarrow> call_env"

text \<open>
  One run of the callback of \<^verbatim>\<open>setInterval\<close> (lines 158 to 179): the state it leaves
  when it ends, or, when it waits for a promise that never settles, the state it
  leaves at that \<^verbatim>\<open>await\<close>.
\<close>

definition retry_tick :: "string option \<Rightarrow> tick_env \<Rightarrow> world \<Rightarrow> world" where
  "retry_tick url tenv w =
     (if \<not> truthy url then w
      else
        (let w1 = w\<lparr>dblog := dblog w @ [Q_select_retry]\<rparr>
         in case select_query tenv of
              Db_throws \<Rightarrow> w1\<lparr>console := console w1 @ [Err_retry_job Db_error]\<rparr>
            | Db_hangs \<Rightarrow> w1
            | Db_done \<Rightarrow>
              (let rows = retry_select (table w1)
               in if length rows > 0
                  then (case deliver_all url (calls tenv) 0 rows
                               (w1\<lparr>console := console w1 @ [Log_retrying (length rows)]\<rparr>) of
                          (Some (Inl e), w2) \<Rightarrow> w2\<lparr>console := console w2 @ [Err_retry_job e]\<rparr>
                        | (Some (Inr u), w2) \<Rightarrow> w2
                        | (None, w2) \<Rightarrow> w2)
                  else w1)))"

subsection \<open>The approval handler\<close>

text \<open>
  The \<^verbatim>\<open>UPDATE\<close> of lines 429 to 438, with \<^verbatim>\<open>$1\<close> to \<^verbatim>\<open>$4\<close> as \<open>t\<close>, \<open>u\<close>, \<open>i\<close>, \<open>p\<close>.
\<close>

definition approve_update ::
  "string option \<Rightarrow> string \<Rightarrow> string \<Rightarrow> string \<Rightarrow> invoice list \<Rightarrow> invoice list" where
  "approve_update t u i p tbl =
     map (\<lambda>r. if id_col r = i \<and> phonenumber r = p
              then r\<lparr>status := Some ''APPROVED'',
                     total_col := t,
                     pdf_url := Some u,
                     webhook_status := Some ''PENDING'',
                     webhook_attempts := Some 0\<rparr>
              else r) tbl"

text \<open>
  Lines 444 to 448. With a destination, \<^verbatim>\<open>sendWebhook(row)\<close> runs up to its first
  \<^verbatim>\<open>await\<close> and the handler goes on: the result tells how far the call has come.
  Without a destination only a note is logged and there is no call.
\<close>

definition trigger_hook ::
  "string option \<Rightarrow> call_env \<Rightarrow> invoice option \<Rightarrow> world \<Rightarrow> world \<times> started option" where
  "trigger_hook url env row w =
     (if truthy url
      then (case sendWebhook_start url env row w of (st, w') \<Rightarrow> (w', Some st))
      else (w\<lparr>console := console w @ [Log_no_webhook_url]\<rparr>, None))"

text \<open>
  The rest of the call started by the hook for a row, whenever it runs: an exception
  of \<^verbatim>\<open>sendWebhook\<close> goes to the \<^verbatim>\<open>.catch\<close> of line 445, which logs it.
\<close>

definition hook_settle :: "call_env \<Rightarrow> invoice \<Rightarrow> world \<Rightarrow> world" where
  "hook_settle env row w =
     (case sendWebhook_settle env row w of
        (Some (Inl e), w') \<Rightarrow> w'\<lparr>console := console w' @ [Err_immediate_trigger e]\<rparr>
      | (Some (Inr b), w') \<Rightarrow> w'
      | (None, w') \<Rightarrow> w')"

text \<open>
  The same \<^verbatim>\<open>.catch\<close> for a call that was over before its first \<^verbatim>\<open>await\<close>: it runs as
  soon as the handler has finished its own step.
\<close>

definition hook_finished :: "js_error + bool \<Rightarrow> world \<Rightarrow> world" where
  "hook_finished r w =
     (case r of
        Inl e \<Rightarrow> w\<lparr>console := console w @ [Err_immediate_trigger e]\<rparr>
      | Inr b \<Rightarrow> w)"

record approve_env =
  vercel :: bool
  write_ok :: bool
  approve_query :: db_outcome
  now_ms :: string
  protocol :: string
  host :: string

text \<open>
  Lines 407 to 427: the URL under which the PDF is stored. On Vercel nothing is
  written and the URL is a placeholder.
\<close>

definition approve_pdf_url :: "approve_env \<Rightarrow> string \<Rightarrow> string \<Rightarrow> string" where
  "approve_pdf_url aenv i p =
     (let filename = ''invoice_'' @ p @ ''_'' @ i @ ''_'' @ now_ms aenv @ ''.pdf''
      in if vercel aenv then ''https://placeholder-storage.com/'' @ filename
         else protocol aenv @ ''://'' @ host aenv @ ''/invoices/files/'' @ filename)"

text \<open>
  Lines 440 to 451, after the \<^verbatim>\<open>UPDATE\<close>: \<open>row\<close> is \<^verbatim>\<open>result.rows[0]\<close>, which is
  \<^verbatim>\<open>undefined\<close> when no row was matched. The hook is run with it all the same;
  \<^verbatim>\<open>row.id\<close> of line 451 then throws, which makes the response a 500. The \<^verbatim>\<open>.catch\<close>
  of a call that is already over runs once this step of the handler has ended.
\<close>

definition approve_respond ::
  "string option \<Rightarrow> call_env \<Rightarrow> invoice option \<Rightarrow> world \<Rightarrow> nat option \<times> world \<times> invoice option" where
  "approve_respond url env row w =
     (case trigger_hook url env row w of
        (w3, st) \<Rightarrow>
          (let w4 = (case row of
                       None \<Rightarrow> w3\<lparr>console := console w3 @ [Err_approval Type_error]\<rparr>
                     | Some r \<Rightarrow> w3);
               code = (case row of None \<Rightarrow> 500 | Some r \<Rightarrow> 200)
           in case st of
                None \<Rightarrow> (Some code, w4, None)
              | Some (Finished r) \<Rightarrow> (Some code, hook_finished r w4, None)
              | Some (Awaiting ivc) \<Rightarrow> (Some code, w4, Some ivc)))"

text \<open>
  The handler of \<^verbatim>\<open>POST /invoices/:id/:phone/approve\<close> (lines 391 to 456): the HTTP
  status of the response (\<open>None\<close> when the handler never responds), the state, and
  the row whose delivery is pending.
\<close>

definition approve ::
  "string option \<Rightarrow> approve_env \<Rightarrow> call_env \<Rightarrow> string \<Rightarrow> string \<Rightarrow> string option \<Rightarrow> string option
     \<Rightarrow> world \<Rightarrow> nat option \<times> world \<times> invoice option" where
  "approve url aenv env i p pdfBase64 t w =
     (if \<not> truthy pdfBase64 then (Some 400, w, None)
      else if \<not> vercel aenv \<and> \<not> write_ok aenv
      then (Some 500, w\<lparr>console := console w @ [Err_approval Fs_error]\<rparr>, None)
      else
        (let w1 = w\<lparr>dblog := dblog w @ [Q_approve i p]\<rparr>
         in case approve_query aenv of
              Db_throws \<Rightarrow> (Some 500, w1\<lparr>console := console w1 @ [Err_approval Db_error]\<rparr>, None)
            | Db_hangs \<Rightarrow> (None, w1, None)
            | Db_done \<Rightarrow>
                (let w2 = w1\<lparr>table := approve_update t (approve_pdf_url aenv i p) i p (table w1)\<rparr>
                 in approve_respond url env
                      (case filter (\<lambda>r. id_col r = i \<and> phonenumber r = p) (table w2) of
                         [] \<Rightarrow> None
                       | r # others \<Rightarrow> Some r)
                      w2)))"

subsection \<open>Sample inputs\<close>

text \<open>
  Concrete values at which the theorems below are instantiated. First a directory
  without files, a destination that answers and one that cannot be reached, an
  approved invoice that waits for its first delivery, and a table that holds only it.
\<close>

definition no_files :: "string \<Rightarrow> fs_entry" where
  "no_files name = Absent"

definition env_up :: call_env where
  "env_up = \<lparr>fs = no_files, now_iso = ''2025-01-01T00:00:00.000Z'', http = Http_2xx,
             sent_update = Db_done, failed_update = Db_done\<rparr>"

definition env_down :: call_env where
  "env_down = env_up\<lparr>http := Network_failure\<rparr>"

definition ivc_x :: invoice where
  "ivc_x = \<lparr>id_col = ''x'', phonenumber = ''555'', dealer = Some ''d'', total_col = Some ''10'',
     status = Some ''APPROVED'', pdf_url = Some ''http://h/invoices/files/a.pdf'',
     webhook_status = Some ''PENDING'', webhook_attempts = None\<rparr>"

definition world0 :: world where
  "world0 = \<lparr>table = [ivc_x], outbox = [], dblog = [], console = []\<rparr>"

definition hook_url :: "string option" where
  "hook_url = Some ''http://n8n.example/webhook''"

text \<open>
  The post is answered but the \<^verbatim>\<open>UPDATE\<close> for \<^verbatim>\<open>'SENT'\<close> throws; the destination is down
  and the \<^verbatim>\<open>UPDATE\<close> for \<^verbatim>\<open>'FAILED'\<close> throws; the destination never answers; the file
  \<^verbatim>\<open>a.pdf\<close> exists but cannot be read.
\<close>

definition env_sent_lost :: call_env where
  "env_sent_lost = env_up\<lparr>sent_update := Db_throws\<rparr>"



definition env_unreadable :: call_env where
  "env_unreadable = env_up\<lparr>fs := (\<lambda>name. if name = ''a.pdf'' then Unreadable else Absent)\<rparr>"

text \<open>
  An approval on a local server, an invoice not yet approved whose delivery columns
  hold values of an earlier approval, a run of the retry job in which everything
  works, a second invoice, and fifteen invoices that differ only in their ids.
\<close>

definition aenv_local :: approve_env where
  "aenv_local = \<lparr>vercel = False, write_ok = True, approve_query = Db_done,
                 now_ms = ''1700000000000'', protocol = ''http'', host = ''localhost:5000''\<rparr>"

definition ivc_old :: invoice where
  "ivc_old = ivc_x\<lparr>status := Some ''created'', webhook_status := Some ''SENT'',
                   webhook_attempts := Some 7\<rparr>"

definition tenv_up :: tick_env where
  "tenv_up = \<lparr>select_query = Db_done, calls = (\<lambda>k. env_up)\<rparr>"


definition fifteen :: "invoice list" where
  "fifteen = map (\<lambda>c. ivc_x\<lparr>id_col := [c]\<rparr>) ''abcdefghijklmno''"

text \<open>
  A run in which the request of the hook outlives a run of the retry job: the
  approval of invoice x with the destination down, then the retry job with the
  destination up, then the completion of the call that the hook started.
\<close>

definition race_approved :: "nat option \<times> world \<times> invoice option" where
  "race_approved =
     approve hook_url aenv_local env_down ''x'' ''555'' (Some ''JVBERi0='') (Some ''12'')
       (world0\<lparr>table := [ivc_old]\<rparr>)"

definition race_after_tick :: world where
  "race_after_tick = retry_tick hook_url tenv_up (fst (snd race_approved))"

definition race_after_hook :: world where
  "race_after_hook =
     (case snd (snd race_approved) of
        None \<Rightarrow> race_after_tick
      | Some row \<Rightarrow> hook_settle env_down row race_after_tick)"

section \<open>Properties\<close>

subsection \<open>What one call of sendWebhook returns and writes\<close>

lemma table_request: "table (sendWebhook_request env ivc w) = table w"
  by (simp add: sendWebhook_request_def split: prod.splits)

lemma dblog_request: "dblog (sendWebhook_request env ivc w) = dblog w"
  by (simp add: sendWebhook_request_def split: prod.splits)

lemma outbox_request:
  "outbox (sendWebhook_request env ivc w) =
     outbox w @ [build_payload env ivc (fst (read_pdf (fs env) ivc))]"
  by (simp add: sendWebhook_request_def split: prod.splits)

lemma outbox_settle: "outbox (snd (sendWebhook_settle env ivc w)) = outbox w"
  by (simp add: sendWebhook_settle_def sendWebhook_catch_def Let_def split: db_outcome.splits)

lemma fst_settle:
  "fst (sendWebhook_settle env ivc w) =
     (if http env = Http_pending then None
      else if http env = Http_2xx \<and> sent_update env = Db_done then Some (Inr True)
      else if http env = Http_2xx \<and> sent_update env = Db_hangs then None
      else (case failed_update env of
              Db_done \<Rightarrow> Some (Inr False)
            | Db_throws \<Rightarrow> Some (Inl Db_error)
            | Db_hangs \<Rightarrow> None))"
  by (simp add: sendWebhook_settle_def sendWebhook_catch_def Let_def split: db_outcome.splits)

lemma table_settle:
  "table (snd (sendWebhook_settle env ivc w)) =
     (if http env = Http_pending then table w
      else if http env = Http_2xx \<and> sent_update env = Db_done
           then mark_sent (id_col ivc) (table w)
      else if http env = Http_2xx \<and> sent_update env = Db_hangs then table w
      else if failed_update env = Db_done then mark_failed (id_col ivc) (table w)
      else table w)"
  by (simp add: sendWebhook_settle_def sendWebhook_catch_def Let_def split: db_outcome.splits)

lemma dblog_settle:
  "dblog (snd (sendWebhook_settle env ivc w)) =
     (if http env = Http_pending then dblog w
      else if http env = Http_2xx
           then (if sent_update env = Db_throws
                 then dblog w @ [Q_mark_sent (id_col ivc), Q_mark_failed (id_col ivc)]
                 else dblog w @ [Q_mark_sent (id_col ivc)])
           else dblog w @ [Q_mark_failed (id_col ivc)])"
  by (simp add: sendWebhook_settle_def sendWebhook_catch_def Let_def split: db_outcome.splits)

lemma sendWebhook_Some:
  "sendWebhook url env (Some ivc) w =
     (if \<not> truthy url then (Some (Inr False), w)
      else sendWebhook_settle env ivc (sendWebhook_request env ivc w))"
  by (simp add: sendWebhook_def sendWebhook_start_def)


lemma fst_sendWebhook:
  "fst (sendWebhook url env (Some ivc) w) =
     (if \<not> truthy url then Some (Inr False)
      else if http env = Http_pending then None
      else if http env = Http_2xx \<and> sent_update env = Db_done then Some (Inr True)
      else if http env = Http_2xx \<and> sent_update env = Db_hangs then None
      else (case failed_update env of
              Db_done \<Rightarrow> Some (Inr False)
            | Db_throws \<Rightarrow> Some (Inl Db_error)
            | Db_hangs \<Rightarrow> None))"
  by (simp add: sendWebhook_Some fst_settle)

lemma table_sendWebhook:
  "table (snd (sendWebhook url env (Some ivc) w)) =
     (if \<not> truthy url then table w
      else if http env = Http_pending then table w
      else if http env = Http_2xx \<and> sent_update env = Db_done
           then mark_sent (id_col ivc) (table w)
      else if http env = Http_2xx \<and> sent_update env = Db_hangs then table w
      else if failed_update env = Db_done then mark_failed (id_col ivc) (table w)
      else table w)"
  by (simp add: sendWebhook_Some table_settle table_request)

lemma outbox_sendWebhook:
  "outbox (snd (sendWebhook url env (Some ivc) w)) =
     (if \<not> truthy url then outbox w
      else outbox w @ [build_payload env ivc (fst (read_pdf (fs env) ivc))])"
  by (simp add: sendWebhook_Some outbox_settle outbox_request)

lemma dblog_sendWebhook:
  "dblog (snd (sendWebhook url env (Some ivc) w)) =
     (if \<not> truthy url \<or> http env = Http_pending then dblog w
      else if http env = Http_2xx
           then (if sent_update env = Db_throws
                 then dblog w @ [Q_mark_sent (id_col ivc), Q_mark_failed (id_col ivc)]
                 else dblog w @ [Q_mark_sent (id_col ivc)])
           else dblog w @ [Q_mark_failed (id_col ivc)])"
  by (simp add: sendWebhook_Some dblog_settle dblog_request)

lemma nth_mark_sent:
  "k < length tbl \<Longrightarrow>
   mark_sent i tbl ! k =
     (if id_col (tbl ! k) = i then (tbl ! k)\<lparr>webhook_status := Some ''SENT''\<rparr> else tbl ! k)"
  by (simp add: mark_sent_def)

lemma nth_mark_failed:
  "k < length tbl \<Longrightarrow>
   mark_failed i tbl ! k =
     (if id_col (tbl ! k) = i
      then (tbl ! k)\<lparr>webhook_status := Some ''FAILED'',
                     webhook_attempts := Some (coalesce (webhook_attempts (tbl ! k)) 0 + 1)\<rparr>
      else tbl ! k)"
  by (simp add: mark_failed_def)

subsection \<open>Recording the outcome of a delivery\<close>

text \<open>
  C1. With a destination configured, a call of \<^verbatim>\<open>sendWebhook\<close> that returns \<^verbatim>\<open>true\<close>
  leaves every row with the invoice's id at \<^verbatim>\<open>webhook_status = 'SENT'\<close> with its
  \<^verbatim>\<open>webhook_attempts\<close> as it was, and a call that returns \<^verbatim>\<open>false\<close> leaves it at
  \<^verbatim>\<open>'FAILED'\<close> with \<^verbatim>\<open>webhook_attempts\<close> one more than before, \<^verbatim>\<open>NULL\<close> counting as 0.
  The call returns \<^verbatim>\<open>true\<close> when the post is answered with a 2xx and the first
  \<^verbatim>\<open>UPDATE\<close> goes through, and \<^verbatim>\<open>false\<close> when the post fails and the second does.
\<close>

theorem sendWebhook_records_outcome:
  assumes "truthy url" and "k < length (table w)" and "id_col (table w ! k) = id_col ivc"
  shows "(http env = Http_2xx \<and> sent_update env = Db_done \<longrightarrow>
            fst (sendWebhook url env (Some ivc) w) = Some (Inr True))
    \<and> (http env \<noteq> Http_2xx \<and> http env \<noteq> Http_pending \<and> failed_update env = Db_done \<longrightarrow>
            fst (sendWebhook url env (Some ivc) w) = Some (Inr False))
    \<and> (fst (sendWebhook url env (Some ivc) w) = Some (Inr True) \<longrightarrow>
         webhook_status (table (snd (sendWebhook url env (Some ivc) w)) ! k) = Some ''SENT'' \<and>
         webhook_attempts (table (snd (sendWebhook url env (Some ivc) w)) ! k)
           = webhook_attempts (table w ! k))
    \<and> (fst (sendWebhook url env (Some ivc) w) = Some (Inr False) \<longrightarrow>
         webhook_status (table (snd (sendWebhook url env (Some ivc) w)) ! k) = Some ''FAILED'' \<and>
         webhook_attempts (table (snd (sendWebhook url env (Some ivc) w)) ! k) =
           Some ((case webhook_attempts (table w ! k) of None \<Rightarrow> 0 | Some n \<Rightarrow> n) + 1))"
  using assms
  by (simp add: fst_sendWebhook table_sendWebhook nth_mark_sent nth_mark_failed coalesce_def
      split: db_outcome.splits)

theorem sendWebhook_records_outcome_witness:
  "fst (sendWebhook hook_url env_up (Some ivc_x) world0) = Some (Inr True)
   \<and> webhook_status (table (snd (sendWebhook hook_url env_up (Some ivc_x) world0)) ! 0) = Some ''SENT''
   \<and> webhook_attempts (table (snd (sendWebhook hook_url env_up (Some ivc_x) world0)) ! 0) = None
   \<and> fst (sendWebhook hook_url env_down (Some ivc_x) world0) = Some (Inr False)
   \<and> webhook_status (table (snd (sendWebhook hook_url env_down (Some ivc_x) world0)) ! 0) = Some ''FAILED''
   \<and> webhook_attempts (table (snd (sendWebhook hook_url env_down (Some ivc_x) world0)) ! 0) = Some 1"
proof -
  have u: "truthy hook_url" by (simp add: truthy_def hook_url_def)
  have k: "0 < length (table world0)" by (simp add: world0_def)
  have i: "id_col (table world0 ! 0) = id_col ivc_x" by (simp add: world0_def)
  have a: "webhook_attempts (table world0 ! 0) = None" by (simp add: world0_def ivc_x_def)
  have e1: "http env_up = Http_2xx \<and> sent_update env_up = Db_done" by (simp add: env_up_def)
  have e2: "http env_down \<noteq> Http_2xx \<and> http env_down \<noteq> Http_pending
      \<and> failed_update env_down = Db_done"
    by (simp add: env_down_def env_up_def)
  from sendWebhook_records_outcome [OF u k i, of env_up]
       sendWebhook_records_outcome [OF u k i, of env_down] a e1 e2
  show ?thesis by simp
qed

subsection \<open>The retry query\<close>

lemma retry_where_true_iff:
  "retry_where r = Sql_true \<longleftrightarrow>
     status r = Some ''APPROVED'' \<and>
     (webhook_status r = Some ''FAILED'' \<or> webhook_status r = Some ''PENDING'') \<and>
     (webhook_attempts r = None \<or> (\<exists>n. webhook_attempts r = Some n \<and> n < 10))"
proof -
  have and_true: "\<And>a b. sql_and a b = Sql_true \<longleftrightarrow> a = Sql_true \<and> b = Sql_true"
    subgoal for a b by (cases a; cases b) simp_all
    done
  have or_true: "\<And>a b. sql_or a b = Sql_true \<longleftrightarrow> a = Sql_true \<or> b = Sql_true"
    subgoal for a b by (cases a; cases b) simp_all
    done
  have eq_true: "\<And>v s. sql_eq v s = Sql_true \<longleftrightarrow> v = Some s"
    by (simp add: sql_eq_def sql_of_bool_def split: option.splits)
  have lt_true: "\<And>v n. sql_lt v n = Sql_true \<longleftrightarrow> (\<exists>m. v = Some m \<and> m < n)"
    by (simp add: sql_lt_def sql_of_bool_def split: option.splits)
  have null_true: "\<And>v. sql_is_null v = Sql_true \<longleftrightarrow> v = None"
    by (simp add: sql_is_null_def sql_of_bool_def)
  show ?thesis
    unfolding retry_where_def and_true or_true eq_true lt_true null_true by blast
qed

text \<open>
  C2. A row returned by the retry query is a row of the table with
  \<^verbatim>\<open>status = 'APPROVED'\<close>, with \<^verbatim>\<open>webhook_status\<close> equal to \<^verbatim>\<open>'FAILED'\<close> or \<^verbatim>\<open>'PENDING'\<close>, and
  with \<^verbatim>\<open>webhook_attempts\<close> null or below 10. So a row whose status is not
  \<^verbatim>\<open>'APPROVED'\<close> (null included) is never returned, and neither is a row with 10 or
  more attempts, whatever its \<^verbatim>\<open>webhook_status\<close>.
\<close>

theorem retry_select_only_eligible:
  "(r \<in> set (retry_select tbl) \<longrightarrow>
      r \<in> set tbl \<and>
      status r = Some ''APPROVED'' \<and>
      (webhook_status r = Some ''FAILED'' \<or> webhook_status r = Some ''PENDING'') \<and>
      (webhook_attempts r = None \<or> (\<exists>n. webhook_attempts r = Some n \<and> n < 10)))
   \<and> (status r \<noteq> Some ''APPROVED'' \<longrightarrow> r \<notin> set (retry_select tbl))
   \<and> (\<forall>n. webhook_attempts r = Some n \<and> 10 \<le> n \<longrightarrow> r \<notin> set (retry_select tbl))"
proof -
  have sel: "r \<in> set (retry_select tbl) \<Longrightarrow> r \<in> set tbl \<and> retry_where r = Sql_true"
    unfolding retry_select_def by (auto dest: in_set_takeD)
  show ?thesis
    using sel by (auto simp: retry_where_true_iff)
qed

theorem retry_select_only_eligible_witness:
  "ivc_x \<in> set (retry_select [ivc_x])
   \<and> status ivc_x = Some ''APPROVED''
   \<and> webhook_status ivc_x = Some ''PENDING''
   \<and> webhook_attempts ivc_x = None
   \<and> ivc_x\<lparr>status := Some ''created''\<rparr> \<notin> set (retry_select [ivc_x\<lparr>status := Some ''created''\<rparr>])
   \<and> ivc_x\<lparr>webhook_attempts := Some 10\<rparr> \<notin> set (retry_select [ivc_x\<lparr>webhook_attempts := Some 10\<rparr>])"
proof -
  have w: "retry_where ivc_x = Sql_true"
    by (simp add: retry_where_def ivc_x_def sql_eq_def sql_lt_def sql_is_null_def sql_of_bool_def)
  have m: "ivc_x \<in> set (retry_select [ivc_x])"
    by (simp add: retry_select_def w)
  have s: "status (ivc_x\<lparr>status := Some ''created''\<rparr>) \<noteq> Some ''APPROVED''" by simp
  have a: "webhook_attempts (ivc_x\<lparr>webhook_attempts := Some 10\<rparr>) = Some 10 \<and> (10::int) \<le> 10"
    by simp
  from retry_select_only_eligible [of ivc_x "[ivc_x]"]
       retry_select_only_eligible [of "ivc_x\<lparr>status := Some ''created''\<rparr>"
          "[ivc_x\<lparr>status := Some ''created''\<rparr>]"]
       retry_select_only_eligible [of "ivc_x\<lparr>webhook_attempts := Some 10\<rparr>"
          "[ivc_x\<lparr>webhook_attempts := Some 10\<rparr>]"] m s a
  show ?thesis by (simp add: ivc_x_def)
qed

subsection \<open>A delivered notification recorded as failed\<close>

text \<open>
  C10. When the post is answered with a 2xx but the \<^verbatim>\<open>UPDATE\<close> that records \<^verbatim>\<open>'SENT'\<close>
  throws, control passes to the \<^verbatim>\<open>catch\<close> branch: the request has gone out, both
  statements have been issued, the rows of the invoice end at \<^verbatim>\<open>'FAILED'\<close> with one more
  attempt, and \<^verbatim>\<open>sendWebhook\<close> returns \<^verbatim>\<open>false\<close>. The witness is such an execution.
\<close>

theorem delivered_but_recorded_failed:
  assumes "truthy url" and "http env = Http_2xx"
    and "sent_update env = Db_throws" and "failed_update env = Db_done"
    and "k < length (table w)" and "id_col (table w ! k) = id_col ivc"
  shows "fst (sendWebhook url env (Some ivc) w) = Some (Inr False)
    \<and> outbox (snd (sendWebhook url env (Some ivc) w)) =
        outbox w @ [build_payload env ivc (fst (read_pdf (fs env) ivc))]
    \<and> dblog (snd (sendWebhook url env (Some ivc) w)) =
        dblog w @ [Q_mark_sent (id_col ivc), Q_mark_failed (id_col ivc)]
    \<and> webhook_status (table (snd (sendWebhook url env (Some ivc) w)) ! k) = Some ''FAILED''
    \<and> webhook_attempts (table (snd (sendWebhook url env (Some ivc) w)) ! k) =
        Some ((case webhook_attempts (table w ! k) of None \<Rightarrow> 0 | Some n \<Rightarrow> n) + 1)"
  using assms
  by (simp add: fst_sendWebhook table_sendWebhook outbox_sendWebhook dblog_sendWebhook
      nth_mark_failed coalesce_def)

theorem delivered_but_recorded_failed_witness:
  "http env_sent_lost = Http_2xx
   \<and> fst (sendWebhook hook_url env_sent_lost (Some ivc_x) world0) = Some (Inr False)
   \<and> map p_invoice_id (outbox (snd (sendWebhook hook_url env_sent_lost (Some ivc_x) world0))) = [''x'']
   \<and> webhook_status (table (snd (sendWebhook hook_url env_sent_lost (Some ivc_x) world0)) ! 0)
       = Some ''FAILED''
   \<and> webhook_attempts (table (snd (sendWebhook hook_url env_sent_lost (Some ivc_x) world0)) ! 0)
       = Some 1"
proof -
  have u: "truthy hook_url" by (simp add: truthy_def hook_url_def)
  have h: "http env_sent_lost = Http_2xx" by (simp add: env_sent_lost_def env_up_def)
  have s: "sent_update env_sent_lost = Db_throws" by (simp add: env_sent_lost_def)
  have f: "failed_update env_sent_lost = Db_done" by (simp add: env_sent_lost_def env_up_def)
  have k: "0 < length (table world0)" by (simp add: world0_def)
  have i: "id_col (table world0 ! 0) = id_col ivc_x" by (simp add: world0_def)
  have a: "webhook_attempts (table world0 ! 0) = None" by (simp add: world0_def ivc_x_def)
  have o: "outbox world0 = []" by (simp add: world0_def)
  have p: "id_col ivc_x = ''x''" by (simp add: ivc_x_def)
  from delivered_but_recorded_failed [OF u h s f k i] a h o p
  show ?thesis by (simp add: build_payload_def)
qed

subsection \<open>No destination configured\<close>

text \<open>
  C5. When \<^verbatim>\<open>WEBHOOK_URL\<close> is unset or empty, \<^verbatim>\<open>sendWebhook\<close> returns \<^verbatim>\<open>false\<close> and
  leaves the state as it was (no request, no statement); a run of the retry job leaves
  the state as it was, so it issues no query; the hook of the approval handler sends
  no request, issues no statement, changes no row and leaves no delivery pending; and
  the whole approval handler sends no request and leaves no delivery pending.
\<close>

theorem unconfigured_is_inert:
  assumes "\<not> truthy url"
  shows "sendWebhook url env row w = (Some (Inr False), w)
    \<and> retry_tick url tenv w = w
    \<and> outbox (fst (trigger_hook url env row w)) = outbox w
    \<and> dblog (fst (trigger_hook url env row w)) = dblog w
    \<and> table (fst (trigger_hook url env row w)) = table w
    \<and> snd (trigger_hook url env row w) = None
    \<and> outbox (fst (snd (approve url aenv env i p b t w))) = outbox w
    \<and> snd (snd (approve url aenv env i p b t w)) = None"
proof -
  have r: "outbox (fst (snd (approve_respond url env r' w'))) = outbox w'
      \<and> snd (snd (approve_respond url env r' w')) = None" for r' w'
    using assms by (simp add: approve_respond_def trigger_hook_def split: option.splits)
  have a: "outbox (fst (snd (approve url aenv env i p b t w))) = outbox w
    \<and> snd (snd (approve url aenv env i p b t w)) = None"
    by (simp add: approve_def r Let_def split: db_outcome.splits)
  show ?thesis
    using assms a
    by (simp add: sendWebhook_def sendWebhook_start_def retry_tick_def trigger_hook_def)
qed

theorem unconfigured_is_inert_witness:
  "sendWebhook None env_up (Some ivc_x) world0 = (Some (Inr False), world0)
   \<and> retry_tick None tenv_up world0 = world0
   \<and> outbox (fst (trigger_hook None env_up (Some ivc_x) world0)) = []
   \<and> snd (trigger_hook None env_up (Some ivc_x) world0) = None
   \<and> retry_tick (Some '''') tenv_up world0 = world0"
proof -
  have n: "\<not> truthy None" by (simp add: truthy_def)
  have e: "\<not> truthy (Some '''')" by (simp add: truthy_def)
  have o: "outbox world0 = []" by (simp add: world0_def)
  from unconfigured_is_inert [OF n, of env_up "Some ivc_x" world0 tenv_up]
       unconfigured_is_inert [OF e, of env_up "Some ivc_x" world0 tenv_up] o
  show ?thesis by simp
qed

subsection \<open>Approval\<close>

lemma nth_approve_update:
  "k < length tbl \<Longrightarrow>
   approve_update t u i p tbl ! k =
     (if id_col (tbl ! k) = i \<and> phonenumber (tbl ! k) = p
      then (tbl ! k)\<lparr>status := Some ''APPROVED'', total_col := t, pdf_url := Some u,
                     webhook_status := Some ''PENDING'', webhook_attempts := Some 0\<rparr>
      else tbl ! k)"
  by (simp add: approve_update_def)

lemma filter_approve_update_nonempty:
  assumes "k < length tbl" and "id_col (tbl ! k) = i" and "phonenumber (tbl ! k) = p"
  shows "filter (\<lambda>r. id_col r = i \<and> phonenumber r = p) (approve_update t u i p tbl) \<noteq> []"
proof -
  have "approve_update t u i p tbl ! k \<in> set (approve_update t u i p tbl)"
    using assms(1) by (simp add: approve_update_def)
  moreover have "id_col (approve_update t u i p tbl ! k) = i
      \<and> phonenumber (approve_update t u i p tbl ! k) = p"
    using assms by (simp add: nth_approve_update)
  ultimately show ?thesis
    by (auto simp: filter_empty_conv)
qed

lemma table_trigger_hook: "table (fst (trigger_hook url env row w)) = table w"
  by (simp add: trigger_hook_def sendWebhook_start_def table_request split: option.splits)

lemma table_hook_finished: "table (hook_finished r w) = table w"
  by (simp add: hook_finished_def split: sum.splits)

lemma table_approve_respond:
  "table (fst (snd (approve_respond url env row w))) = table w"
  using table_trigger_hook [of url env row w]
  by (auto simp: approve_respond_def Let_def table_hook_finished
      split: prod.splits option.splits started.splits)

lemma fst_approve_respond:
  "fst (approve_respond url env row w) = Some (case row of None \<Rightarrow> 500 | Some r \<Rightarrow> 200)"
  by (auto simp: approve_respond_def Let_def split: prod.splits option.splits started.splits)

lemma table_approve:
  "table (fst (snd (approve url aenv env i p b t w))) =
     (if truthy b \<and> (vercel aenv \<or> write_ok aenv) \<and> approve_query aenv = Db_done
      then approve_update t (approve_pdf_url aenv i p) i p (table w)
      else table w)"
  by (auto simp: approve_def Let_def table_approve_respond split: db_outcome.splits)

text \<open>
  C6. A request that carries a PDF, whose file is written (or that runs on Vercel) and
  whose \<^verbatim>\<open>UPDATE\<close> goes through, is answered with 200 when a row has the id and phone of
  the route, and every such row then has \<^verbatim>\<open>status = 'APPROVED'\<close>,
  \<^verbatim>\<open>webhook_status = 'PENDING'\<close> and \<^verbatim>\<open>webhook_attempts = 0\<close> when the handler answers,
  whatever the three columns held before.
\<close>

theorem approve_resets_delivery_fields:
  assumes "truthy pdfBase64" and "vercel aenv \<or> write_ok aenv" and "approve_query aenv = Db_done"
    and "k < length (table w)" and "id_col (table w ! k) = i" and "phonenumber (table w ! k) = p"
  shows "fst (approve url aenv env i p pdfBase64 t w) = Some 200
    \<and> status (table (fst (snd (approve url aenv env i p pdfBase64 t w))) ! k) = Some ''APPROVED''
    \<and> webhook_status (table (fst (snd (approve url aenv env i p pdfBase64 t w))) ! k) = Some ''PENDING''
    \<and> webhook_attempts (table (fst (snd (approve url aenv env i p pdfBase64 t w))) ! k) = Some 0"
proof -
  obtain row others where f:
    "filter (\<lambda>r. id_col r = i \<and> phonenumber r = p)
       (approve_update t (approve_pdf_url aenv i p) i p (table w)) = row # others"
    using filter_approve_update_nonempty [OF assms(4-6), of t "approve_pdf_url aenv i p"]
    by (cases "filter (\<lambda>r. id_col r = i \<and> phonenumber r = p)
                 (approve_update t (approve_pdf_url aenv i p) i p (table w))") auto
  have code: "fst (approve url aenv env i p pdfBase64 t w) = Some 200"
    using assms(1-3) f by (auto simp: approve_def Let_def fst_approve_respond)
  show ?thesis
    using code assms by (simp add: table_approve nth_approve_update)
qed

theorem approve_resets_delivery_fields_witness:
  "fst (approve hook_url aenv_local env_up ''x'' ''555'' (Some ''JVBERi0='') (Some ''12'')
          (world0\<lparr>table := [ivc_old]\<rparr>)) = Some 200
   \<and> webhook_status ivc_old = Some ''SENT'' \<and> webhook_attempts ivc_old = Some 7
   \<and> status (table (fst (snd (approve hook_url aenv_local env_up ''x'' ''555'' (Some ''JVBERi0='')
          (Some ''12'') (world0\<lparr>table := [ivc_old]\<rparr>)))) ! 0) = Some ''APPROVED''
   \<and> webhook_status (table (fst (snd (approve hook_url aenv_local env_up ''x'' ''555''
          (Some ''JVBERi0='') (Some ''12'') (world0\<lparr>table := [ivc_old]\<rparr>)))) ! 0) = Some ''PENDING''
   \<and> webhook_attempts (table (fst (snd (approve hook_url aenv_local env_up ''x'' ''555''
          (Some ''JVBERi0='') (Some ''12'') (world0\<lparr>table := [ivc_old]\<rparr>)))) ! 0) = Some 0"
proof -
  have b: "truthy (Some ''JVBERi0='')" by (simp add: truthy_def)
  have v: "vercel aenv_local \<or> write_ok aenv_local" by (simp add: aenv_local_def)
  have q: "approve_query aenv_local = Db_done" by (simp add: aenv_local_def)
  have k: "0 < length (table (world0\<lparr>table := [ivc_old]\<rparr>))" by simp
  have i: "id_col (table (world0\<lparr>table := [ivc_old]\<rparr>) ! 0) = ''x''"
    by (simp add: ivc_old_def ivc_x_def)
  have p: "phonenumber (table (world0\<lparr>table := [ivc_old]\<rparr>) ! 0) = ''555''"
    by (simp add: ivc_old_def ivc_x_def)
  have o: "webhook_status ivc_old = Some ''SENT'' \<and> webhook_attempts ivc_old = Some 7"
    by (simp add: ivc_old_def)
  from approve_resets_delivery_fields [OF b v q k i p, of hook_url env_up "Some ''12''"] o
  show ?thesis by simp
qed

subsection \<open>An artifact that cannot be read\<close>

text \<open>
  C9. For an invoice whose \<^verbatim>\<open>pdf_url\<close> is a non-empty string, when the file it names is
  absent or reading it throws, \<^verbatim>\<open>sendWebhook\<close> still hands one request to
  \<^verbatim>\<open>axios.post\<close>, with \<^verbatim>\<open>pdf_base64\<close> null and the other fields as for any invoice; what
  the call returns is what it would return with any other content of the directory,
  and it is \<^verbatim>\<open>true\<close> when the post is answered with a 2xx and the \<^verbatim>\<open>UPDATE\<close> goes through.
\<close>

theorem unreadable_pdf_is_not_fatal:
  assumes "truthy url" and "pdf_url ivc = Some u" and "u \<noteq> []"
    and "fs env (last_segment u) = Absent \<or> fs env (last_segment u) = Unreadable"
  shows "outbox (snd (sendWebhook url env (Some ivc) w)) = outbox w @ [build_payload env ivc None]
    \<and> p_pdf_base64 (last (outbox (snd (sendWebhook url env (Some ivc) w)))) = None
    \<and> p_pdf_url (last (outbox (snd (sendWebhook url env (Some ivc) w)))) = Some u
    \<and> fst (sendWebhook url env (Some ivc) w) = fst (sendWebhook url (env\<lparr>fs := files\<rparr>) (Some ivc) w)
    \<and> (http env = Http_2xx \<and> sent_update env = Db_done \<longrightarrow>
          fst (sendWebhook url env (Some ivc) w) = Some (Inr True))"
proof -
  have "fst (read_pdf (fs env) ivc) = None"
    using assms(2-4) by (auto simp: read_pdf_def)
  then show ?thesis
    using assms(1,2) by (simp add: outbox_sendWebhook fst_sendWebhook build_payload_def)
qed

theorem unreadable_pdf_is_not_fatal_witness:
  "fs env_unreadable (last_segment ''http://h/invoices/files/a.pdf'') = Unreadable
   \<and> outbox (snd (sendWebhook hook_url env_unreadable (Some ivc_x) world0)) =
       [build_payload env_unreadable ivc_x None]
   \<and> p_pdf_base64 (last (outbox (snd (sendWebhook hook_url env_unreadable (Some ivc_x) world0)))) = None
   \<and> fst (sendWebhook hook_url env_unreadable (Some ivc_x) world0) = Some (Inr True)"
proof -
  have u: "truthy hook_url" by (simp add: truthy_def hook_url_def)
  have p: "pdf_url ivc_x = Some ''http://h/invoices/files/a.pdf''" by (simp add: ivc_x_def)
  have n: "''http://h/invoices/files/a.pdf'' \<noteq> []" by simp
  have s: "last_segment ''http://h/invoices/files/a.pdf'' = ''a.pdf''"
    by (simp add: last_segment_def)
  have f: "fs env_unreadable (last_segment ''http://h/invoices/files/a.pdf'') = Unreadable"
    unfolding s by (simp add: env_unreadable_def)
  then have d: "fs env_unreadable (last_segment ''http://h/invoices/files/a.pdf'') = Absent
      \<or> fs env_unreadable (last_segment ''http://h/invoices/files/a.pdf'') = Unreadable"
    by simp
  have e: "http env_unreadable = Http_2xx \<and> sent_update env_unreadable = Db_done"
    by (simp add: env_unreadable_def env_up_def)
  have o: "outbox world0 = []" by (simp add: world0_def)
  from unreadable_pdf_is_not_fatal [OF u p n d, of world0 "fs env_unreadable"] f e o
  show ?thesis by (simp add: build_payload_def)
qed

subsection \<open>What sendWebhook writes\<close>


lemma table_hook_settle:
  "table (hook_settle env ivc w) = table (snd (sendWebhook_settle env ivc w))"
  by (simp add: hook_settle_def split: prod.splits option.splits sum.splits)



lemma retry_tick_is_loop:
  assumes "truthy url" and "select_query tenv = Db_done" and "retry_select (table w) \<noteq> []"
  shows "table (retry_tick url tenv w) =
      table (snd (deliver_all url (calls tenv) 0 (retry_select (table w))
        (w\<lparr>dblog := dblog w @ [Q_select_retry],
           console := console w @ [Log_retrying (length (retry_select (table w)))]\<rparr>)))"
    and "dblog (retry_tick url tenv w) =
      dblog (snd (deliver_all url (calls tenv) 0 (retry_select (table w))
        (w\<lparr>dblog := dblog w @ [Q_select_retry],
           console := console w @ [Log_retrying (length (retry_select (table w)))]\<rparr>)))"
    and "outbox (retry_tick url tenv w) =
      outbox (snd (deliver_all url (calls tenv) 0 (retry_select (table w))
        (w\<lparr>dblog := dblog w @ [Q_select_retry],
           console := console w @ [Log_retrying (length (retry_select (table w)))]\<rparr>)))"
  using assms
  by (simp_all add: retry_tick_def Let_def split: prod.splits option.splits sum.splits)

lemma retry_tick_no_loop:
  assumes "\<not> truthy url \<or> select_query tenv \<noteq> Db_done \<or> retry_select (table w) = []"
  shows "table (retry_tick url tenv w) = table w"
    and "outbox (retry_tick url tenv w) = outbox w"
    and "dblog (retry_tick url tenv w) = (if truthy url then dblog w @ [Q_select_retry] else dblog w)"
  using assms
  by (auto simp: retry_tick_def Let_def split: db_outcome.splits)



subsection \<open>Calls of sendWebhook that do not return\<close>




subsection \<open>The loop of the retry job\<close>

lemma outbox_deliver_all_le:
  "length (outbox (snd (deliver_all url envs k rows w))) \<le> length (outbox w) + length rows"
proof (induction rows arbitrary: k w)
  case Nil
  then show ?case by simp
next
  case (Cons ivc rest)
  obtain res w' where s: "sendWebhook url (envs k) (Some ivc) w = (res, w')"
    by (cases "sendWebhook url (envs k) (Some ivc) w")
  have o: "length (outbox w') \<le> Suc (length (outbox w))"
    using outbox_sendWebhook [of url "envs k" ivc w] s by (simp split: if_splits)
  show ?case
  proof (cases res)
    case None
    with s o show ?thesis by simp
  next
    case (Some r)
    show ?thesis
    proof (cases r)
      case (Inl e)
      with Some s o show ?thesis by simp
    next
      case (Inr b)
      with Some s
      have "deliver_all url envs k (ivc # rest) w = deliver_all url envs (Suc k) rest w'"
        by simp
      with Cons.IH [of "Suc k" w'] o show ?thesis by simp
    qed
  qed
qed

lemma outbox_deliver_all:
  assumes "truthy url"
    and "\<And>j. http (envs j) \<noteq> Http_pending \<and> sent_update (envs j) \<noteq> Db_hangs
            \<and> failed_update (envs j) = Db_done"
  shows "fst (deliver_all url envs k rows w) = Some (Inr ())
    \<and> map p_invoice_id (outbox (snd (deliver_all url envs k rows w))) =
        map p_invoice_id (outbox w) @ map id_col rows"
proof (induction rows arbitrary: k w)
  case Nil
  then show ?case by simp
next
  case (Cons ivc rest)
  obtain res w' where s: "sendWebhook url (envs k) (Some ivc) w = (res, w')"
    by (cases "sendWebhook url (envs k) (Some ivc) w")
  have "\<exists>b. fst (sendWebhook url (envs k) (Some ivc) w) = Some (Inr b)"
    using assms(2) [of k] by (auto simp: fst_sendWebhook)
  then obtain b where r: "res = Some (Inr b)"
    using s by auto
  have o: "map p_invoice_id (outbox w') = map p_invoice_id (outbox w) @ [id_col ivc]"
    using outbox_sendWebhook [of url "envs k" ivc w] s assms(1)
    by (simp add: build_payload_def)
  have "deliver_all url envs k (ivc # rest) w = deliver_all url envs (Suc k) rest w'"
    using s r by simp
  with Cons.IH [of "Suc k" w'] o show ?case by simp
qed

lemma sendWebhook_keeps_other_rows:
  assumes "r \<in> set (table w)" and "id_col r \<noteq> id_col ivc"
  shows "r \<in> set (table (snd (sendWebhook url env (Some ivc) w)))"
proof -
  have s: "r \<in> set (mark_sent (id_col ivc) (table w))"
    unfolding mark_sent_def using assms by (auto simp: image_iff intro!: bexI [of _ r])
  have f: "r \<in> set (mark_failed (id_col ivc) (table w))"
    unfolding mark_failed_def using assms by (auto simp: image_iff intro!: bexI [of _ r])
  show ?thesis
    using assms(1) s f by (simp add: table_sendWebhook)
qed

lemma deliver_all_keeps_other_rows:
  "r \<in> set (table w) \<Longrightarrow> id_col r \<notin> id_col ` set rows \<Longrightarrow>
   r \<in> set (table (snd (deliver_all url envs k rows w)))"
proof (induction rows arbitrary: k w)
  case Nil
  then show ?case by simp
next
  case (Cons ivc rest)
  obtain res w' where s: "sendWebhook url (envs k) (Some ivc) w = (res, w')"
    by (cases "sendWebhook url (envs k) (Some ivc) w")
  have m: "r \<in> set (table w')"
    using sendWebhook_keeps_other_rows [of r w ivc url "envs k"] Cons.prems s by simp
  show ?case
  proof (cases res)
    case None
    with s m show ?thesis by simp
  next
    case (Some x)
    show ?thesis
    proof (cases x)
      case (Inl e)
      with Some s m show ?thesis by simp
    next
      case (Inr b)
      with Some s
      have "deliver_all url envs k (ivc # rest) w = deliver_all url envs (Suc k) rest w'"
        by simp
      with Cons.IH [of w' "Suc k"] m Cons.prems(2) show ?thesis by simp
    qed
  qed
qed

lemma retry_tick_unfold:
  assumes "truthy url" and "select_query tenv = Db_done"
  shows "\<exists>w1. table w1 = table w \<and> outbox w1 = outbox w
    \<and> table (retry_tick url tenv w) =
        table (snd (deliver_all url (calls tenv) 0 (retry_select (table w)) w1))
    \<and> outbox (retry_tick url tenv w) =
        outbox (snd (deliver_all url (calls tenv) 0 (retry_select (table w)) w1))"
proof (cases "retry_select (table w) = []")
  case True
  with retry_tick_no_loop(1,2) [of url tenv w] show ?thesis
    by (intro exI [of _ w]) simp
next
  case False
  let ?w1 = "w\<lparr>dblog := dblog w @ [Q_select_retry],
               console := console w @ [Log_retrying (length (retry_select (table w)))]\<rparr>"
  from retry_tick_is_loop(1,3) [OF assms False] show ?thesis
    by (intro exI [of _ ?w1]) simp
qed

lemma outbox_retry_tick_le:
  "length (outbox (retry_tick url tenv w)) \<le> length (outbox w) + 10"
proof (cases "truthy url \<and> select_query tenv = Db_done")
  case True
  then obtain w1 where w1: "outbox w1 = outbox w"
      "outbox (retry_tick url tenv w) =
        outbox (snd (deliver_all url (calls tenv) 0 (retry_select (table w)) w1))"
    using retry_tick_unfold [of url tenv w] by blast
  have "length (retry_select (table w)) \<le> 10"
    by (simp add: retry_select_def)
  with outbox_deliver_all_le [of url "calls tenv" 0 "retry_select (table w)" w1] w1
  show ?thesis by simp
next
  case False
  then show ?thesis
    using retry_tick_no_loop(2) [of url tenv w] by auto
qed

text \<open>
  C8. A run of the retry job hands at most 10 requests to \<^verbatim>\<open>axios.post\<close>. When the
  destination is configured, the query of the run goes through, every call of the
  loop returns (its request settles, its \<^verbatim>\<open>UPDATE\<close> for \<^verbatim>\<open>'SENT'\<close> does not hang and its
  \<^verbatim>\<open>UPDATE\<close> for \<^verbatim>\<open>'FAILED'\<close> goes through), the ids of the table are unique and 15 rows
  satisfy the \<^verbatim>\<open>WHERE\<close> clause, the run posts exactly 10 requests, one for each of the
  first 10 of those rows in the order of the scan, and the other 5 are rows of the
  table after the run and still satisfy the clause.
\<close>

theorem retry_tick_processes_ten_of_fifteen:
  "length (outbox (retry_tick url tenv w)) \<le> length (outbox w) + 10
   \<and> (truthy url \<and> select_query tenv = Db_done
        \<and> (\<forall>j. http (calls tenv j) \<noteq> Http_pending \<and> sent_update (calls tenv j) \<noteq> Db_hangs
                \<and> failed_update (calls tenv j) = Db_done)
        \<and> distinct (map id_col (table w))
        \<and> length (filter (\<lambda>r. retry_where r = Sql_true) (table w)) = 15 \<longrightarrow>
      length (outbox (retry_tick url tenv w)) = length (outbox w) + 10
      \<and> map p_invoice_id (outbox (retry_tick url tenv w)) =
          map p_invoice_id (outbox w) @
          map id_col (take 10 (filter (\<lambda>r. retry_where r = Sql_true) (table w)))
      \<and> length (drop 10 (filter (\<lambda>r. retry_where r = Sql_true) (table w))) = 5
      \<and> (\<forall>r \<in> set (drop 10 (filter (\<lambda>r. retry_where r = Sql_true) (table w))).
            r \<in> set (filter (\<lambda>r. retry_where r = Sql_true) (table (retry_tick url tenv w)))))"
proof -
  let ?elig = "filter (\<lambda>r. retry_where r = Sql_true) (table w)"
  have second: "length (outbox (retry_tick url tenv w)) = length (outbox w) + 10
      \<and> map p_invoice_id (outbox (retry_tick url tenv w)) =
          map p_invoice_id (outbox w) @ map id_col (take 10 ?elig)
      \<and> length (drop 10 ?elig) = 5
      \<and> (\<forall>r \<in> set (drop 10 ?elig).
            r \<in> set (filter (\<lambda>r. retry_where r = Sql_true) (table (retry_tick url tenv w))))"
    if u: "truthy url" and s: "select_query tenv = Db_done"
      and f: "\<And>j. http (calls tenv j) \<noteq> Http_pending \<and> sent_update (calls tenv j) \<noteq> Db_hangs
                \<and> failed_update (calls tenv j) = Db_done"
      and d: "distinct (map id_col (table w))" and n: "length ?elig = 15"
  proof -
    obtain w1 where w1: "table w1 = table w" "outbox w1 = outbox w"
      "table (retry_tick url tenv w) =
        table (snd (deliver_all url (calls tenv) 0 (retry_select (table w)) w1))"
      "outbox (retry_tick url tenv w) =
        outbox (snd (deliver_all url (calls tenv) 0 (retry_select (table w)) w1))"
      using retry_tick_unfold [OF u s, of w] by blast
    have sel: "retry_select (table w) = take 10 ?elig"
      by (simp add: retry_select_def)
    have ids: "map p_invoice_id (outbox (retry_tick url tenv w)) =
          map p_invoice_id (outbox w) @ map id_col (take 10 ?elig)"
      using outbox_deliver_all [of url "calls tenv" 0 "retry_select (table w)" w1] u f w1 sel
      by simp
    have "length (map p_invoice_id (outbox (retry_tick url tenv w))) =
          length (map p_invoice_id (outbox w) @ map id_col (take 10 ?elig))"
      using ids by simp
    then have len: "length (outbox (retry_tick url tenv w)) = length (outbox w) + 10"
      using n by simp
    have de: "distinct (map id_col ?elig)"
      using d by (rule distinct_map_filter)
    have dis: "set (take 10 (map id_col ?elig)) \<inter> set (drop 10 (map id_col ?elig)) = {}"
      using de by (rule set_take_disj_set_drop_if_distinct) simp
    have rest: "r \<in> set (filter (\<lambda>r. retry_where r = Sql_true) (table (retry_tick url tenv w)))"
      if r: "r \<in> set (drop 10 ?elig)" for r
    proof -
      have re: "r \<in> set ?elig" using r by (rule in_set_dropD)
      then have rt: "r \<in> set (table w1)" and rw: "retry_where r = Sql_true"
        using w1(1) by simp_all
      have "id_col r \<in> set (drop 10 (map id_col ?elig))"
        using r by (simp add: drop_map)
      then have "id_col r \<notin> set (take 10 (map id_col ?elig))"
        using dis by blast
      then have "id_col r \<notin> id_col ` set (retry_select (table w))"
        by (simp add: sel take_map)
      from deliver_all_keeps_other_rows [OF rt this, of url "calls tenv" 0] w1(3) rw
      show ?thesis by simp
    qed
    have five: "length (drop 10 ?elig) = 5"
      using n by simp
    from len ids five rest show ?thesis by blast
  qed
  show ?thesis
    using outbox_retry_tick_le [of url tenv w] second by blast
qed

theorem retry_tick_processes_ten_of_fifteen_witness:
  "length (filter (\<lambda>r. retry_where r = Sql_true) (table (world0\<lparr>table := fifteen\<rparr>))) = 15
   \<and> length (outbox (retry_tick hook_url tenv_up (world0\<lparr>table := fifteen\<rparr>))) = 10
   \<and> map p_invoice_id (outbox (retry_tick hook_url tenv_up (world0\<lparr>table := fifteen\<rparr>))) =
       [''a'', ''b'', ''c'', ''d'', ''e'', ''f'', ''g'', ''h'', ''i'', ''j'']
   \<and> ivc_x\<lparr>id_col := ''k''\<rparr> \<in> set (filter (\<lambda>r. retry_where r = Sql_true)
         (table (retry_tick hook_url tenv_up (world0\<lparr>table := fifteen\<rparr>))))
   \<and> ivc_x\<lparr>id_col := ''o''\<rparr> \<in> set (filter (\<lambda>r. retry_where r = Sql_true)
         (table (retry_tick hook_url tenv_up (world0\<lparr>table := fifteen\<rparr>))))"
proof -
  have u: "truthy hook_url" by (simp add: truthy_def hook_url_def)
  have s: "select_query tenv_up = Db_done" by (simp add: tenv_up_def)
  have f: "\<forall>j. http (calls tenv_up j) \<noteq> Http_pending \<and> sent_update (calls tenv_up j) \<noteq> Db_hangs
                \<and> failed_update (calls tenv_up j) = Db_done"
    by (simp add: tenv_up_def env_up_def)
  have d: "distinct (map id_col (table (world0\<lparr>table := fifteen\<rparr>)))"
    by (simp add: fifteen_def)
  have e: "retry_where (ivc_x\<lparr>id_col := i\<rparr>) = Sql_true" for i
    by (simp add: retry_where_def ivc_x_def sql_eq_def sql_lt_def sql_is_null_def sql_of_bool_def)
  have a: "filter (\<lambda>r. retry_where r = Sql_true) fifteen = fifteen"
    by (simp add: fifteen_def e)
  have l: "length fifteen = 15"
    by (simp add: fifteen_def)
  have n: "length (filter (\<lambda>r. retry_where r = Sql_true) (table (world0\<lparr>table := fifteen\<rparr>))) = 15"
    by (simp add: a l)
  have o: "outbox (world0\<lparr>table := fifteen\<rparr>) = []" by (simp add: world0_def)
  have t: "map id_col (take 10 fifteen) =
      [''a'', ''b'', ''c'', ''d'', ''e'', ''f'', ''g'', ''h'', ''i'', ''j'']"
    by (simp add: fifteen_def)
  have r: "ivc_x\<lparr>id_col := ''k''\<rparr> \<in> set (drop 10 fifteen)"
      "ivc_x\<lparr>id_col := ''o''\<rparr> \<in> set (drop 10 fifteen)"
    by (simp_all add: fifteen_def)
  from retry_tick_processes_ten_of_fifteen [of hook_url tenv_up "world0\<lparr>table := fifteen\<rparr>"]
       u s f d n
  have "length (outbox (retry_tick hook_url tenv_up (world0\<lparr>table := fifteen\<rparr>))) =
          length (outbox (world0\<lparr>table := fifteen\<rparr>)) + 10
      \<and> map p_invoice_id (outbox (retry_tick hook_url tenv_up (world0\<lparr>table := fifteen\<rparr>))) =
          map p_invoice_id (outbox (world0\<lparr>table := fifteen\<rparr>)) @
          map id_col (take 10 (filter (\<lambda>r. retry_where r = Sql_true)
            (table (world0\<lparr>table := fifteen\<rparr>))))
      \<and> (\<forall>r \<in> set (drop 10 (filter (\<lambda>r. retry_where r = Sql_true)
                (table (world0\<lparr>table := fifteen\<rparr>)))).
            r \<in> set (filter (\<lambda>r. retry_where r = Sql_true)
                  (table (retry_tick hook_url tenv_up (world0\<lparr>table := fifteen\<rparr>)))))"
    by blast
  then show ?thesis
    using o t r by (simp add: a l)
qed

subsection \<open>Changes of webhook_status\<close>

text \<open>
  C7 as stated: no operation takes \<^verbatim>\<open>webhook_status\<close> from \<^verbatim>\<open>'SENT'\<close> to \<^verbatim>\<open>'FAILED'\<close>. One
  does. Invoice x is approved while the destination does not answer: the handler
  responds 200, the row is at \<^verbatim>\<open>'PENDING'\<close>, and the request of the hook is out but not
  settled. The retry job runs, finds the row, posts a second request, which is
  answered, and records \<^verbatim>\<open>'SENT'\<close>. Then the request of the hook fails, and its
  \<^verbatim>\<open>catch\<close> branch takes the row from \<^verbatim>\<open>'SENT'\<close> to \<^verbatim>\<open>'FAILED'\<close> with one attempt.
\<close>

theorem only_four_transitions_counterexample:
  "fst race_approved = Some 200
   \<and> map webhook_status (table (fst (snd race_approved))) = [Some ''PENDING'']
   \<and> map p_invoice_id (outbox (fst (snd race_approved))) = [''x'']
   \<and> map webhook_status (table race_after_tick) = [Some ''SENT'']
   \<and> map p_invoice_id (outbox race_after_tick) = [''x'', ''x'']
   \<and> map webhook_status (table race_after_hook) = [Some ''FAILED'']
   \<and> map webhook_attempts (table race_after_hook) = [Some 1]"
  by code_simp

lemma length_table_sendWebhook:
  "length (table (snd (sendWebhook url env (Some ivc) w))) = length (table w)"
  by (simp add: table_sendWebhook mark_sent_def mark_failed_def)

lemma id_col_sendWebhook:
  "k < length (table w) \<Longrightarrow>
   id_col (table (snd (sendWebhook url env (Some ivc) w)) ! k) = id_col (table w ! k)"
  by (simp add: table_sendWebhook nth_mark_sent nth_mark_failed)

lemma status_settle:
  "k < length (table w) \<Longrightarrow>
   webhook_status (table (snd (sendWebhook_settle env ivc w)) ! k) = webhook_status (table w ! k)
   \<or> id_col (table w ! k) = id_col ivc
     \<and> webhook_status (table (snd (sendWebhook_settle env ivc w)) ! k)
         \<in> {Some ''SENT'', Some ''FAILED''}"
  by (simp add: table_settle nth_mark_sent nth_mark_failed)

lemma status_sendWebhook:
  "k < length (table w) \<Longrightarrow>
   webhook_status (table (snd (sendWebhook url env (Some ivc) w)) ! k) = webhook_status (table w ! k)
   \<or> id_col (table w ! k) = id_col ivc
     \<and> webhook_status (table (snd (sendWebhook url env (Some ivc) w)) ! k)
         \<in> {Some ''SENT'', Some ''FAILED''}"
  by (simp add: table_sendWebhook nth_mark_sent nth_mark_failed)

lemma deliver_all_status:
  assumes "distinct (map id_col rows)"
    and "\<forall>k < length (table w). id_col (table w ! k) \<in> id_col ` set rows \<longrightarrow>
           webhook_status (table w ! k) \<in> {Some ''PENDING'', Some ''FAILED''}"
  shows "length (table (snd (deliver_all url envs j rows w))) = length (table w)
    \<and> (\<forall>k < length (table w).
          webhook_status (table (snd (deliver_all url envs j rows w)) ! k)
            = webhook_status (table w ! k)
          \<or> webhook_status (table w ! k) \<in> {Some ''PENDING'', Some ''FAILED''}
            \<and> webhook_status (table (snd (deliver_all url envs j rows w)) ! k)
                \<in> {Some ''SENT'', Some ''FAILED''})"
  using assms
proof (induction rows arbitrary: j w)
  case Nil
  then show ?case by simp
next
  case (Cons ivc rest)
  obtain res w' where s: "sendWebhook url (envs j) (Some ivc) w = (res, w')"
    by (cases "sendWebhook url (envs j) (Some ivc) w")
  have len: "length (table w') = length (table w)"
    using length_table_sendWebhook [of url "envs j" ivc w] s by simp
  have ids: "id_col (table w' ! k) = id_col (table w ! k)" if "k < length (table w)" for k
    using id_col_sendWebhook [OF that, of url "envs j" ivc] s by simp
  have st: "webhook_status (table w' ! k) = webhook_status (table w ! k)
      \<or> id_col (table w ! k) = id_col ivc
        \<and> webhook_status (table w' ! k) \<in> {Some ''SENT'', Some ''FAILED''}"
    if "k < length (table w)" for k
    using status_sendWebhook [OF that, of url "envs j" ivc] s by simp
  have first: "webhook_status (table w' ! k) = webhook_status (table w ! k)
      \<or> webhook_status (table w ! k) \<in> {Some ''PENDING'', Some ''FAILED''}
        \<and> webhook_status (table w' ! k) \<in> {Some ''SENT'', Some ''FAILED''}"
    if k: "k < length (table w)" for k
    using st [OF k] Cons.prems(2) k by auto
  have stop: ?case if "snd (deliver_all url envs j (ivc # rest) w) = w'"
    using that len first by simp
  show ?case
  proof (cases "\<exists>b. res = Some (Inr b)")
    case False
    then have "snd (deliver_all url envs j (ivc # rest) w) = w'"
      using s by (cases res) (auto split: sum.splits)
    then show ?thesis by (rule stop)
  next
    case True
    then have d: "deliver_all url envs j (ivc # rest) w = deliver_all url envs (Suc j) rest w'"
      using s by auto
    have dr: "distinct (map id_col rest)" and ni: "id_col ivc \<notin> id_col ` set rest"
      using Cons.prems(1) by auto
    have pre: "\<forall>k < length (table w'). id_col (table w' ! k) \<in> id_col ` set rest \<longrightarrow>
           webhook_status (table w' ! k) \<in> {Some ''PENDING'', Some ''FAILED''}"
    proof (intro allI impI)
      fix k assume k: "k < length (table w')" and m: "id_col (table w' ! k) \<in> id_col ` set rest"
      have k': "k < length (table w)" using k len by simp
      have m': "id_col (table w ! k) \<in> id_col ` set rest" using m ids [OF k'] by simp
      then have "id_col (table w ! k) \<noteq> id_col ivc" using ni by auto
      then have "webhook_status (table w' ! k) = webhook_status (table w ! k)"
        using st [OF k'] by simp
      moreover have "webhook_status (table w ! k) \<in> {Some ''PENDING'', Some ''FAILED''}"
        using Cons.prems(2) k' m' by auto
      ultimately show "webhook_status (table w' ! k) \<in> {Some ''PENDING'', Some ''FAILED''}"
        by simp
    qed
    from Cons.IH [OF dr pre, of "Suc j"]
    have ih: "length (table (snd (deliver_all url envs (Suc j) rest w'))) = length (table w')"
      "\<And>k. k < length (table w') \<Longrightarrow>
          webhook_status (table (snd (deliver_all url envs (Suc j) rest w')) ! k)
            = webhook_status (table w' ! k)
          \<or> webhook_status (table w' ! k) \<in> {Some ''PENDING'', Some ''FAILED''}
            \<and> webhook_status (table (snd (deliver_all url envs (Suc j) rest w')) ! k)
                \<in> {Some ''SENT'', Some ''FAILED''}"
      by simp_all
    have "webhook_status (table (snd (deliver_all url envs (Suc j) rest w')) ! k)
            = webhook_status (table w ! k)
          \<or> webhook_status (table w ! k) \<in> {Some ''PENDING'', Some ''FAILED''}
            \<and> webhook_status (table (snd (deliver_all url envs (Suc j) rest w')) ! k)
                \<in> {Some ''SENT'', Some ''FAILED''}"
      if k: "k < length (table w)" for k
    proof -
      have k': "k < length (table w')" using k len by simp
      from ih(2) [OF k'] first [OF k] show ?thesis by auto
    qed
    then show ?thesis
      unfolding d using ih(1) len by simp
  qed
qed

lemma retry_tick_status:
  assumes "distinct (map id_col (table w))" and "k < length (table w)"
  shows "webhook_status (table (retry_tick url tenv w) ! k) = webhook_status (table w ! k)
    \<or> webhook_status (table w ! k) \<in> {Some ''PENDING'', Some ''FAILED''}
      \<and> webhook_status (table (retry_tick url tenv w) ! k) \<in> {Some ''SENT'', Some ''FAILED''}"
proof (cases "truthy url \<and> select_query tenv = Db_done")
  case False
  then show ?thesis
    using retry_tick_no_loop(1) [of url tenv w] by auto
next
  case True
  then obtain w1 where w1: "table w1 = table w"
      "table (retry_tick url tenv w) =
        table (snd (deliver_all url (calls tenv) 0 (retry_select (table w)) w1))"
    using retry_tick_unfold [of url tenv w] by blast
  have dr: "distinct (map id_col (retry_select (table w)))"
    unfolding retry_select_def take_map [symmetric]
    using assms(1) by (intro distinct_take distinct_map_filter)
  have inj: "inj_on id_col (set (table w))"
    using assms(1) by (simp add: distinct_map)
  have pre: "\<forall>k < length (table w1). id_col (table w1 ! k) \<in> id_col ` set (retry_select (table w)) \<longrightarrow>
           webhook_status (table w1 ! k) \<in> {Some ''PENDING'', Some ''FAILED''}"
  proof (intro allI impI)
    fix n assume n: "n < length (table w1)"
      and m: "id_col (table w1 ! n) \<in> id_col ` set (retry_select (table w))"
    then obtain r where r: "r \<in> set (retry_select (table w))" "id_col r = id_col (table w ! n)"
      using w1(1) by auto
    have rt: "r \<in> set (table w)" and rw: "retry_where r = Sql_true"
      using r(1) unfolding retry_select_def by (auto dest: in_set_takeD)
    have "table w ! n \<in> set (table w)" using n w1(1) by simp
    with inj rt r(2) have "r = table w ! n" by (auto dest: inj_onD)
    with rw show "webhook_status (table w1 ! n) \<in> {Some ''PENDING'', Some ''FAILED''}"
      using w1(1) by (auto simp: retry_where_true_iff)
  qed
  from deliver_all_status [OF dr pre, of url "calls tenv" 0] assms(2) w1
  show ?thesis by simp
qed

text \<open>
  C7 as amended. The two \<^verbatim>\<open>UPDATE\<close> statements of \<^verbatim>\<open>sendWebhook\<close> select by id alone and
  do not look at the current \<^verbatim>\<open>webhook_status\<close>. So a call of \<^verbatim>\<open>sendWebhook\<close>, and the
  late completion of the call started by the hook, leave the \<^verbatim>\<open>webhook_status\<close> of a row
  as it was or, for a row with the invoice's id, at \<^verbatim>\<open>'SENT'\<close> or \<^verbatim>\<open>'FAILED'\<close>, whatever it
  was: from \<^verbatim>\<open>'PENDING'\<close> or \<^verbatim>\<open>'FAILED'\<close> these are the four listed changes. The approval
  handler leaves it as it was or at \<^verbatim>\<open>'PENDING'\<close>. A run of the retry job on a table
  with unique ids, with nothing else running in between, leaves every row as it was
  or makes one of the four listed changes.
\<close>

theorem webhook_status_changes:
  assumes "k < length (table w)"
  shows "(webhook_status (table (snd (sendWebhook url env (Some ivc) w)) ! k) = webhook_status (table w ! k)
        \<or> id_col (table w ! k) = id_col ivc
          \<and> webhook_status (table (snd (sendWebhook url env (Some ivc) w)) ! k)
              \<in> {Some ''SENT'', Some ''FAILED''})
    \<and> (webhook_status (table (hook_settle env ivc w) ! k) = webhook_status (table w ! k)
        \<or> id_col (table w ! k) = id_col ivc
          \<and> webhook_status (table (hook_settle env ivc w) ! k)
              \<in> {Some ''SENT'', Some ''FAILED''})
    \<and> (webhook_status (table w ! k) \<in> {Some ''PENDING'', Some ''FAILED''} \<longrightarrow>
          webhook_status (table (snd (sendWebhook url env (Some ivc) w)) ! k) = webhook_status (table w ! k)
          \<or> (webhook_status (table w ! k),
              webhook_status (table (snd (sendWebhook url env (Some ivc) w)) ! k))
              \<in> {(Some ''PENDING'', Some ''SENT''), (Some ''PENDING'', Some ''FAILED''),
                  (Some ''FAILED'', Some ''SENT''), (Some ''FAILED'', Some ''FAILED'')})
    \<and> (webhook_status (table (fst (snd (approve url aenv env i p b t w))) ! k)
          = webhook_status (table w ! k)
        \<or> webhook_status (table (fst (snd (approve url aenv env i p b t w))) ! k)
          = Some ''PENDING'')
    \<and> (distinct (map id_col (table w)) \<longrightarrow>
          webhook_status (table (retry_tick url tenv w) ! k) = webhook_status (table w ! k)
          \<or> (webhook_status (table w ! k), webhook_status (table (retry_tick url tenv w) ! k))
              \<in> {(Some ''PENDING'', Some ''SENT''), (Some ''PENDING'', Some ''FAILED''),
                  (Some ''FAILED'', Some ''SENT''), (Some ''FAILED'', Some ''FAILED'')})"
proof -
  have c1: "webhook_status (table (snd (sendWebhook url env (Some ivc) w)) ! k) = webhook_status (table w ! k)
        \<or> id_col (table w ! k) = id_col ivc
          \<and> webhook_status (table (snd (sendWebhook url env (Some ivc) w)) ! k)
              \<in> {Some ''SENT'', Some ''FAILED''}"
    using assms by (rule status_sendWebhook)
  have c2: "webhook_status (table (hook_settle env ivc w) ! k) = webhook_status (table w ! k)
        \<or> id_col (table w ! k) = id_col ivc
          \<and> webhook_status (table (hook_settle env ivc w) ! k)
              \<in> {Some ''SENT'', Some ''FAILED''}"
    unfolding table_hook_settle using assms by (rule status_settle)
  have c3: "webhook_status (table w ! k) \<in> {Some ''PENDING'', Some ''FAILED''} \<longrightarrow>
          webhook_status (table (snd (sendWebhook url env (Some ivc) w)) ! k) = webhook_status (table w ! k)
          \<or> (webhook_status (table w ! k),
              webhook_status (table (snd (sendWebhook url env (Some ivc) w)) ! k))
              \<in> {(Some ''PENDING'', Some ''SENT''), (Some ''PENDING'', Some ''FAILED''),
                  (Some ''FAILED'', Some ''SENT''), (Some ''FAILED'', Some ''FAILED'')}"
    using c1 by auto
  have c4: "webhook_status (table (fst (snd (approve url aenv env i p b t w))) ! k)
          = webhook_status (table w ! k)
        \<or> webhook_status (table (fst (snd (approve url aenv env i p b t w))) ! k)
          = Some ''PENDING''"
    using assms by (simp add: table_approve nth_approve_update)
  have c5: "distinct (map id_col (table w)) \<longrightarrow>
          webhook_status (table (retry_tick url tenv w) ! k) = webhook_status (table w ! k)
          \<or> (webhook_status (table w ! k), webhook_status (table (retry_tick url tenv w) ! k))
              \<in> {(Some ''PENDING'', Some ''SENT''), (Some ''PENDING'', Some ''FAILED''),
                  (Some ''FAILED'', Some ''SENT''), (Some ''FAILED'', Some ''FAILED'')}"
  proof
    assume d: "distinct (map id_col (table w))"
    from retry_tick_status [OF d assms, of url tenv]
    show "webhook_status (table (retry_tick url tenv w) ! k) = webhook_status (table w ! k)
          \<or> (webhook_status (table w ! k), webhook_status (table (retry_tick url tenv w) ! k))
              \<in> {(Some ''PENDING'', Some ''SENT''), (Some ''PENDING'', Some ''FAILED''),
                  (Some ''FAILED'', Some ''SENT''), (Some ''FAILED'', Some ''FAILED'')}"
      by auto
  qed
  from c1 c2 c3 c4 c5 show ?thesis by blast
qed

theorem webhook_status_changes_witness:
  "webhook_status (table world0 ! 0) = Some ''PENDING''
   \<and> webhook_status (table (snd (sendWebhook hook_url env_up (Some ivc_x) world0)) ! 0) = Some ''SENT''
   \<and> webhook_status (table (retry_tick hook_url tenv_up world0) ! 0) \<in> {Some ''SENT'', Some ''FAILED''}
   \<and> webhook_status (table (retry_tick hook_url tenv_up world0) ! 0) = Some ''SENT''"
proof -
  have k: "0 < length (table world0)" by (simp add: world0_def)
  have d: "distinct (map id_col (table world0))" by (simp add: world0_def)
  have o: "webhook_status (table world0 ! 0) = Some ''PENDING''"
    by (simp add: world0_def ivc_x_def)
  have s: "webhook_status (table (snd (sendWebhook hook_url env_up (Some ivc_x) world0)) ! 0) = Some ''SENT''"
    by (simp add: table_sendWebhook nth_mark_sent hook_url_def truthy_def env_up_def world0_def)
  have t: "webhook_status (table (retry_tick hook_url tenv_up world0) ! 0) = Some ''SENT''"
    by code_simp
  from webhook_status_changes [OF k, of hook_url env_up ivc_x] d o s t
  show ?thesis by simp
qed

end
